theory Spec2Isabelle
  imports Main
begin

section \<open>The socket interface (frontend/src/utils/mock.js)\<close>

text \<open>
  The controller talks to its backend through an object with the WebSocket interface:
  a ready state, four handler slots, \<open>send\<close> and \<open>close\<close>. The repository's own
  implementation of that interface is class \<open>MockWebSocket\<close>; its methods are embedded
  here and the controller below runs on them. A handler slot is modelled by whether a
  handler is attached (\<open>null\<close> is \<open>False\<close>). Two fields record what the methods do to the
  outside: \<open>sent\<close> holds the data accepted by \<open>send\<close>, in order (the channel), and
  \<open>acks\<close> the acknowledgments that \<open>send\<close> has scheduled with \<open>setTimeout\<close>.
  Console output is not part of the model.
\<close>

datatype ready_state = CONNECTING | OPEN | CLOSING | CLOSED

text \<open>
  A text that comes from outside the source (the host typed by the user, the address of
  the backend, the address of a socket) is a JavaScript string: a sequence of UTF-16
  code units, here numbers. The texts written in the source are ASCII and stay
  \<open>string\<close>s; \<open>js\<close> turns one into its code units.
\<close>

type_synonym jstring = "nat list"

definition js :: "string \<Rightarrow> jstring" where
  "js s = map of_char s"

datatype error = Error string

record websocket =
  url :: jstring
  readyState :: ready_state
  onopen :: bool
  onclose :: bool
  onmessage :: bool
  onerror :: bool
  sent :: "string list"
  acks :: "string list"

text \<open>The constructor of \<open>MockWebSocket\<close>.\<close>

definition MockWebSocket :: "jstring \<Rightarrow> websocket" where
  "MockWebSocket u =
     \<lparr>url = u, readyState = CONNECTING, onopen = False, onclose = False,
      onmessage = False, onerror = False, sent = [], acks = []\<rparr>"

text \<open>
  \<open>String.prototype.trim\<close> strips the white space and the line terminators of
  ECMAScript from both ends: tab, line feed, vertical tab, form feed, carriage return,
  space, no-break space (U+00A0), the other space separators of Unicode (U+1680, U+2000
  to U+200A, U+202F, U+205F, U+3000), the line and paragraph separators (U+2028, U+2029)
  and the byte order mark (U+FEFF). Each of them is one code unit.
\<close>

definition js_whitespace :: "nat \<Rightarrow> bool" where
  "js_whitespace c =
     (c \<in> set [0x09, 0x0A, 0x0B, 0x0C, 0x0D, 0x20, 0xA0, 0x1680, 0x2028, 0x2029, 0x202F,
               0x205F, 0x3000, 0xFEFF] \<or>
      (0x2000 \<le> c \<and> c \<le> 0x200A))"

definition trim :: "jstring \<Rightarrow> jstring" where
  "trim s = rev (dropWhile js_whitespace (rev (dropWhile js_whitespace s)))"

text \<open>
  \<open>MockWebSocket.connect\<close>: the promise resolves with an open socket or rejects with
  \<open>Invalid IP address\<close>. The second component of the result says whether the \<open>onopen\<close>
  handler was called; the slot of the fresh object is empty.
\<close>

definition mock_connect :: "jstring \<Rightarrow> error + websocket \<times> bool" where
  "mock_connect ip =
     (if ip \<noteq> [] \<and> trim ip \<noteq> [] then
        let mockWS = (MockWebSocket (js ''ws://'' @ ip @ js '':65432''))\<lparr>readyState := OPEN\<rparr>
        in Inr (mockWS, onopen mockWS)
      else Inl (Error ''Invalid IP address''))"

text \<open>\<open>send\<close> raises unless the socket is open.\<close>

definition send :: "string \<Rightarrow> websocket \<Rightarrow> error + websocket" where
  "send d ws =
     (if readyState ws \<noteq> OPEN then Inl (Error ''WebSocket is not open'')
      else Inr (ws\<lparr>sent := sent ws @ [d], acks := acks ws @ [d]\<rparr>))"

text \<open>\<open>close\<close> returns the closed socket and whether the \<open>onclose\<close> handler was called.\<close>

definition close :: "websocket \<Rightarrow> websocket \<times> bool" where
  "close ws = (ws\<lparr>readyState := CLOSED\<rparr>, onclose ws)"

section \<open>Messages\<close>

text \<open>
  The data of an incoming message is represented by what \<open>JSON.parse\<close> makes of it:
  \<open>None\<close> when parsing raises, a JSON value otherwise. Numbers are integers here; the
  handler only tests them for being zero.
\<close>

datatype json =
  JNull | JBool bool | JNum int | JStr string | JArr "json list" | JObj "(string \<times> json) list"

text \<open>
  Property access \<open>message.k\<close> for the keys the handler reads (\<open>type\<close>, \<open>connected\<close>):
  a \<open>TypeError\<close> on \<open>null\<close>, \<open>undefined\<close> (\<open>None\<close>) on the other non-objects, and
  the last binding of the key in an object.
\<close>

fun member :: "json \<Rightarrow> string \<Rightarrow> error + json option" where
  "member JNull k = Inl (Error ''TypeError'')"
| "member (JObj kvs) k = Inr (map_of (rev kvs) k)"
| "member v k = Inr None"

text \<open>Truthiness of a JavaScript value; \<open>None\<close> is \<open>undefined\<close>.\<close>

fun truthy :: "json option \<Rightarrow> bool" where
  "truthy None = False"
| "truthy (Some JNull) = False"
| "truthy (Some (JBool b)) = b"
| "truthy (Some (JNum n)) = (n \<noteq> 0)"
| "truthy (Some (JStr s)) = (s \<noteq> [])"
| "truthy (Some (JArr xs)) = True"
| "truthy (Some (JObj kvs)) = True"

text \<open>The values of \<open>JSON.stringify({ type: 'connect' })\<close> and of its \<open>disconnect\<close> twin.\<close>

definition connect_frame :: string where
  \<open>connect_frame = ''{"type":"connect"}''\<close>

definition disconnect_frame :: string where
  \<open>disconnect_frame = ''{"type":"disconnect"}''\<close>

section \<open>The controller (frontend/src/components/RobotController.jsx)\<close>

text \<open>
  The state of the component: its six state variables, its two refs, and the objects
  the refs point into. Sockets live in a store indexed by handle, \<open>wsRef\<close> holds a handle
  or \<open>null\<close>; \<open>timers\<close> are the identifiers of the pending timeouts.
\<close>

record controller =
  ipAddress :: jstring
  isConnected :: bool
  isConnecting :: bool
  speed :: "int list"
  activeCommand :: string
  connectionStatus :: string
  wsRef :: "nat option"
  commandTimeoutRef :: "nat option"
  sockets :: "nat \<Rightarrow> websocket"
  nextSocket :: nat
  timers :: "nat list"
  nextTimer :: nat

definition initial :: controller where
  "initial =
     \<lparr>ipAddress = js ''192.168.1.22'', isConnected = False, isConnecting = False,
      speed = [50], activeCommand = [], connectionStatus = ''Disconnected'',
      wsRef = None, commandTimeoutRef = None,
      sockets = (\<lambda>h. (MockWebSocket [])\<lparr>readyState := CLOSED\<rparr>), nextSocket = 0,
      timers = [], nextTimer = 0\<rparr>"

text \<open>
  What the platform supplies to \<open>connect\<close>: the environment variable with the backend
  address, and the socket constructor, which may raise.
\<close>

record env =
  REACT_APP_BACKEND_URL :: "jstring option"
  new_WebSocket :: "jstring \<Rightarrow> error + websocket"

text \<open>
  A handler either returns or raises; in both cases it leaves a state behind.
\<close>

datatype 'a result = Returned 'a | Raised error 'a

fun state_of :: "'a result \<Rightarrow> 'a" where
  "state_of (Returned s) = s"
| "state_of (Raised e s) = s"

fun returned :: "'a result \<Rightarrow> bool" where
  "returned (Returned s) = True"
| "returned (Raised e s) = False"

text \<open>\<open>String.prototype.replace\<close> with a string pattern: the first occurrence only.\<close>

fun replace_first :: "jstring \<Rightarrow> jstring \<Rightarrow> jstring \<Rightarrow> jstring" where
  "replace_first pat rep [] = (if pat = [] then rep else [])"
| "replace_first pat rep (c # cs) =
     (if take (length pat) (c # cs) = pat then rep @ drop (length pat) (c # cs)
      else c # replace_first pat rep cs)"

text \<open>The two addresses computed by \<open>connect\<close>, for the host \<open>ip\<close>.\<close>

definition backendUrl :: "env \<Rightarrow> jstring" where
  "backendUrl ev =
     (case REACT_APP_BACKEND_URL ev of
        None \<Rightarrow> js ''ws://localhost:8001''
      | Some u \<Rightarrow> if u = [] then js ''ws://localhost:8001'' else u)"

definition wsUrl :: "env \<Rightarrow> jstring \<Rightarrow> jstring" where
  "wsUrl ev ip =
     replace_first (js ''http'') (js ''ws'') (backendUrl ev) @ js ''/api/ws/robot/'' @ ip"

definition connect :: "env \<Rightarrow> controller \<Rightarrow> controller" where
  "connect ev s =
     (if trim (ipAddress s) = [] then s
      else
        let s1 = s\<lparr>isConnecting := True, connectionStatus := ''Connecting...''\<rparr>
        in case new_WebSocket ev (wsUrl ev (ipAddress s)) of
             Inl e \<Rightarrow> s1\<lparr>connectionStatus := ''Connection Failed'', isConnecting := False\<rparr>
           | Inr ws \<Rightarrow>
               s1\<lparr>sockets := (sockets s1)
                      (nextSocket s1 :=
                         ws\<lparr>onopen := True, onmessage := True, onerror := True, onclose := True\<rparr>),
                  nextSocket := Suc (nextSocket s1),
                  wsRef := Some (nextSocket s1)\<rparr>)"

text \<open>The four handlers that \<open>connect\<close> attaches to the socket with handle \<open>h\<close>.\<close>

definition onopen_handler :: "nat \<Rightarrow> controller \<Rightarrow> controller result" where
  "onopen_handler h s =
     (let s1 = s\<lparr>connectionStatus := ''Establishing robot connection...''\<rparr>
      in case send connect_frame (sockets s1 h) of
           Inl e \<Rightarrow> Raised e s1
         | Inr ws \<Rightarrow> Returned (s1\<lparr>sockets := (sockets s1)(h := ws)\<rparr>))"

definition status_connected :: "json option \<Rightarrow> bool" where
  "status_connected p =
     (case p of
        None \<Rightarrow> False
      | Some m \<Rightarrow>
          (case member m ''type'' of
             Inl e \<Rightarrow> False
           | Inr t \<Rightarrow>
               t = Some (JStr ''status'') \<and>
               (case member m ''connected'' of Inl e \<Rightarrow> False | Inr c \<Rightarrow> truthy c)))"

definition onmessage_handler :: "json option \<Rightarrow> controller \<Rightarrow> controller" where
  "onmessage_handler p s =
     (case p of
        None \<Rightarrow> s
      | Some m \<Rightarrow>
          (case member m ''type'' of
             Inl e \<Rightarrow> s
           | Inr t \<Rightarrow>
               if t = Some (JStr ''status'') \<and>
                  (case member m ''connected'' of Inl e \<Rightarrow> False | Inr c \<Rightarrow> truthy c)
               then s\<lparr>isConnected := True, connectionStatus := ''Connected''\<rparr>
               else if t = Some (JStr ''error'')
               then s\<lparr>connectionStatus := ''Connection Failed''\<rparr>
               else s))"

definition onerror_handler :: "controller \<Rightarrow> controller" where
  "onerror_handler s = s\<lparr>connectionStatus := ''WebSocket Error'', isConnecting := False\<rparr>"

definition onclose_handler :: "controller \<Rightarrow> controller" where
  "onclose_handler s =
     s\<lparr>isConnected := False, connectionStatus := ''Disconnected'', wsRef := None\<rparr>"

text \<open>
  \<open>ws.close()\<close> on the socket with handle \<open>h\<close>: the socket is closed in the store and,
  when \<open>close\<close> calls the \<open>onclose\<close> slot, the controller's handler runs.
\<close>

definition close_socket :: "nat \<Rightarrow> controller \<Rightarrow> controller" where
  "close_socket h s =
     (case close (sockets s h) of
        (ws, called) \<Rightarrow>
          let s1 = s\<lparr>sockets := (sockets s)(h := ws)\<rparr>
          in if called then onclose_handler s1 else s1)"

definition disconnect :: "controller \<Rightarrow> controller result" where
  "disconnect s =
     (case wsRef s of
        None \<Rightarrow>
          Returned (s\<lparr>isConnected := False, connectionStatus := ''Disconnected'',
                      activeCommand := [], isConnecting := False\<rparr>)
      | Some h \<Rightarrow>
          (case send disconnect_frame (sockets s h) of
             Inl e \<Rightarrow> Raised e s
           | Inr ws \<Rightarrow>
               let s1 = close_socket h (s\<lparr>sockets := (sockets s)(h := ws)\<rparr>);
                   s2 = s1\<lparr>wsRef := None\<rparr>
               in Returned (s2\<lparr>isConnected := False, connectionStatus := ''Disconnected'',
                               activeCommand := [], isConnecting := False\<rparr>)))"

text \<open>\<open>clearTimeout\<close> and \<open>setTimeout\<close> on the table of pending timers.\<close>

definition clearTimeout :: "nat option \<Rightarrow> nat list \<Rightarrow> nat list" where
  "clearTimeout r ts = (case r of None \<Rightarrow> ts | Some t \<Rightarrow> removeAll t ts)"

definition sendCommand :: "string \<Rightarrow> controller \<Rightarrow> controller result" where
  "sendCommand command s =
     (case wsRef s of
        None \<Rightarrow> Returned s
      | Some h \<Rightarrow>
          if \<not> isConnected s then Returned s
          else
            (case send command (sockets s h) of
               Inl e \<Rightarrow> Raised e s
             | Inr ws \<Rightarrow>
                 Returned
                   (s\<lparr>sockets := (sockets s)(h := ws),
                      activeCommand := command,
                      timers := clearTimeout (commandTimeoutRef s) (timers s) @ [nextTimer s],
                      commandTimeoutRef := Some (nextTimer s),
                      nextTimer := Suc (nextTimer s)\<rparr>)))"

text \<open>The callback of the timeout set by \<open>sendCommand\<close>, run when timer \<open>t\<close> expires.\<close>

definition timeout_fires :: "nat \<Rightarrow> controller \<Rightarrow> controller" where
  "timeout_fires t s =
     (if t \<in> set (timers s) then s\<lparr>timers := removeAll t (timers s), activeCommand := []\<rparr>
      else s)"

text \<open>
  \<open>xs[0]\<close> is \<open>undefined\<close> (\<open>None\<close>) on an empty array; \<open>>\<close> with \<open>undefined\<close> is false.
\<close>

definition first :: "int list \<Rightarrow> int option" where
  "first xs = (case xs of [] \<Rightarrow> None | x # _ \<Rightarrow> Some x)"

definition js_greater :: "int option \<Rightarrow> int option \<Rightarrow> bool" where
  "js_greater a b = (case a of None \<Rightarrow> False | Some x \<Rightarrow> (case b of None \<Rightarrow> False | Some y \<Rightarrow> y < x))"

definition handleSpeedChange :: "int list \<Rightarrow> controller \<Rightarrow> controller result" where
  "handleSpeedChange newSpeed s =
     (let s1 = s\<lparr>speed := newSpeed\<rparr>
      in if isConnected s \<and> first newSpeed \<noteq> first (speed s)
         then sendCommand (if js_greater (first newSpeed) (first (speed s)) then ''W'' else ''S'') s1
         else Returned s1)"

definition emergencyStop :: "controller \<Rightarrow> controller result" where
  "emergencyStop s = sendCommand ''H'' s"

definition handleTouchStart :: "string \<Rightarrow> controller \<Rightarrow> controller result" where
  "handleTouchStart command s = sendCommand command s"

definition handleTouchEnd :: "controller \<Rightarrow> controller result" where
  "handleTouchEnd s =
     (if activeCommand s \<noteq> [] \<and> activeCommand s \<in> set [''U'', ''D'', ''L'', ''R'']
      then sendCommand ''H'' s
      else Returned s)"

text \<open>The cleanup function of the effect, run when the component unmounts.\<close>

definition cleanup :: "controller \<Rightarrow> controller" where
  "cleanup s =
     (let s1 = (case wsRef s of None \<Rightarrow> s | Some h \<Rightarrow> close_socket h s)
      in s1\<lparr>timers := clearTimeout (commandTimeoutRef s1) (timers s1)\<rparr>)"

section \<open>Events\<close>

text \<open>
  One event is one run of a handler: a gesture of the user, an event of a socket, the
  expiry of a timer, or the unmount. A socket event reaches its handler when the slot is
  attached; the socket opens from \<open>CONNECTING\<close>, delivers messages while \<open>OPEN\<close>, and is
  \<open>CLOSED\<close> when its close event is dispatched.
\<close>

datatype event =
    ChangeIp jstring
  | Connect
  | Disconnect
  | TouchStart string
  | TouchEnd
  | SpeedChange "int list"
  | EmergencyStop
  | WsOpen nat
  | WsMessage nat "json option"
  | WsError nat
  | WsClose nat
  | TimerFires nat
  | Unmount

fun step :: "env \<Rightarrow> controller \<Rightarrow> event \<Rightarrow> controller" where
  "step ev s (ChangeIp v) = s\<lparr>ipAddress := v\<rparr>"
| "step ev s Connect = connect ev s"
| "step ev s Disconnect = state_of (disconnect s)"
| "step ev s (TouchStart c) = state_of (handleTouchStart c s)"
| "step ev s TouchEnd = state_of (handleTouchEnd s)"
| "step ev s (SpeedChange v) = state_of (handleSpeedChange v s)"
| "step ev s EmergencyStop = state_of (emergencyStop s)"
| "step ev s (WsOpen h) =
     (if readyState (sockets s h) = CONNECTING then
        let s1 = s\<lparr>sockets := (sockets s)(h := (sockets s h)\<lparr>readyState := OPEN\<rparr>)\<rparr>
        in if onopen (sockets s h) then state_of (onopen_handler h s1) else s1
      else s)"
| "step ev s (WsMessage h p) =
     (if readyState (sockets s h) = OPEN \<and> onmessage (sockets s h)
      then onmessage_handler p s else s)"
| "step ev s (WsError h) = (if onerror (sockets s h) then onerror_handler s else s)"
| "step ev s (WsClose h) =
     (if readyState (sockets s h) = CLOSED then s
      else
        let s1 = s\<lparr>sockets := (sockets s)(h := (sockets s h)\<lparr>readyState := CLOSED\<rparr>)\<rparr>
        in if onclose (sockets s h) then onclose_handler s1 else s1)"
| "step ev s (TimerFires t) = timeout_fires t s"
| "step ev s Unmount = cleanup s"

definition run :: "env \<Rightarrow> controller \<Rightarrow> event list \<Rightarrow> controller" where
  "run ev s es = foldl (step ev) s es"

text \<open>The platform used in the examples: no environment variable, the mock's constructor.\<close>

definition mock_env :: env where
  "mock_env = \<lparr>REACT_APP_BACKEND_URL = None, new_WebSocket = (\<lambda>u. Inr (MockWebSocket u))\<rparr>"

text \<open>A platform whose socket constructor raises on every address.\<close>

definition failing_env :: env where
  "failing_env =
     \<lparr>REACT_APP_BACKEND_URL = None, new_WebSocket = (\<lambda>u. Inl (Error ''SyntaxError''))\<rparr>"

text \<open>The message \<open>{"type": "status", "connected": true}\<close>, parsed.\<close>

definition status_up :: "json option" where
  "status_up = Some (JObj [(''type'', JStr ''status''), (''connected'', JBool True)])"

text \<open>
  A connected session: the state says so, a socket is held, and that socket is open.
\<close>

definition connected :: "controller \<Rightarrow> nat \<Rightarrow> bool" where
  "connected s h = (isConnected s \<and> wsRef s = Some h \<and> readyState (sockets s h) = OPEN)"

text \<open>A sequence of calls of \<open>sendCommand\<close>, one after the other, up to the first that raises.\<close>

fun sendCommands :: "string list \<Rightarrow> controller \<Rightarrow> controller result" where
  "sendCommands [] s = Returned s"
| "sendCommands (c # cs) s =
     (case sendCommand c s of Returned s1 \<Rightarrow> sendCommands cs s1 | Raised e s1 \<Rightarrow> Raised e s1)"

text \<open>
  States used as examples: the session after the user has pressed Connect, and the
  session after the socket has opened and the backend has reported the robot connected.
\<close>

definition connecting_example :: controller where
  "connecting_example = run mock_env initial [Connect]"

definition connected_example :: controller where
  "connected_example = run mock_env initial [Connect, WsOpen 0, WsMessage 0 status_up]"

text \<open>The connected session while the forward button is held.\<close>

definition moving_example :: controller where
  "moving_example =
     run mock_env initial [Connect, WsOpen 0, WsMessage 0 status_up, TouchStart ''U'']"

text \<open>
  The gestures that send a command: the four directional buttons call \<open>handleTouchStart\<close>
  with their letter and \<open>handleTouchEnd\<close> on release, the two stop buttons call
  \<open>emergencyStop\<close>, the slider calls \<open>handleSpeedChange\<close>.
\<close>

fun gesture :: "event \<Rightarrow> bool" where
  "gesture (TouchStart c) = (c \<in> set [''U'', ''L'', ''R'', ''D''])"
| "gesture TouchEnd = True"
| "gesture EmergencyStop = True"
| "gesture (SpeedChange v) = True"
| "gesture e = False"

text \<open>
  The values the slider hands to \<open>onValueChange\<close>, by its properties \<open>min={10}\<close>,
  \<open>max={100}\<close>, \<open>step={10}\<close>: an array with one number on that grid.
\<close>

definition slider_value :: "int list \<Rightarrow> bool" where
  "slider_value v =
     (case v of [x] \<Rightarrow> 10 \<le> x \<and> x \<le> 100 \<and> (x - 10) mod 10 = 0 | _ \<Rightarrow> False)"

fun slider_event :: "event \<Rightarrow> bool" where
  "slider_event (SpeedChange v) = slider_value v"
| "slider_event e = True"

section \<open>Basic facts\<close>

lemma send_open:
  "readyState ws = OPEN \<Longrightarrow>
   send d ws = Inr (ws\<lparr>sent := sent ws @ [d], acks := acks ws @ [d]\<rparr>)"
  by (simp add: send_def)

lemma send_not_open:
  "readyState ws \<noteq> OPEN \<Longrightarrow> send d ws = Inl (Error ''WebSocket is not open'')"
  by (simp add: send_def)

lemma sendCommand_connected:
  "connected s h \<Longrightarrow>
   sendCommand c s =
     Returned
       (s\<lparr>sockets := (sockets s)
              (h := (sockets s h)\<lparr>sent := sent (sockets s h) @ [c],
                                  acks := acks (sockets s h) @ [c]\<rparr>),
          activeCommand := c,
          timers := clearTimeout (commandTimeoutRef s) (timers s) @ [nextTimer s],
          commandTimeoutRef := Some (nextTimer s),
          nextTimer := Suc (nextTimer s)\<rparr>)"
  by (simp add: sendCommand_def connected_def send_open)

lemmas eval_defs =
  run_def mock_env_def initial_def connect_def trim_def js_whitespace_def js_def
  MockWebSocket_def onopen_handler_def send_def connect_frame_def onmessage_handler_def
  status_up_def connected_def sendCommand_def clearTimeout_def handleTouchStart_def
  handleTouchEnd_def timeout_fires_def disconnect_def close_socket_def close_def
  disconnect_frame_def onclose_handler_def wsUrl_def backendUrl_def

lemma connected_example_connected: "connected connected_example 0"
  by (simp add: connected_example_def eval_defs)

lemma connected_example_sent: "sent (sockets connected_example 0) = [connect_frame]"
  by (simp add: connected_example_def eval_defs)

lemma connecting_example_held:
  "wsRef connecting_example = Some 0 \<and>
   readyState (sockets connecting_example 0) = CONNECTING \<and>
   \<not> isConnected connecting_example"
  by (simp add: connecting_example_def eval_defs)

lemma connected_example_speed: "speed connected_example = [50]"
  by (simp add: connected_example_def eval_defs)

lemma moving_example_holds:
  "wsRef moving_example = Some 0 \<and> commandTimeoutRef moving_example = Some 0 \<and>
   timers moving_example = [0] \<and> readyState (sockets moving_example 0) = OPEN"
  by (simp add: moving_example_def eval_defs)

section \<open>What each handler changes\<close>

lemma close_socket_fields:
  "speed (close_socket h s) = speed s"
  "timers (close_socket h s) = timers s"
  "commandTimeoutRef (close_socket h s) = commandTimeoutRef s"
  "readyState (sockets (close_socket h s) h) = CLOSED"
  "sent (sockets (close_socket h s) k) = sent (sockets s k)"
  by (simp_all add: close_socket_def close_def onclose_handler_def Let_def)

lemma close_socket_isConnected: "isConnected (close_socket h s) \<Longrightarrow> isConnected s"
  by (simp add: close_socket_def close_def onclose_handler_def Let_def split: if_splits)

lemma disconnect_not_open:
  "wsRef s = Some h \<Longrightarrow> readyState (sockets s h) \<noteq> OPEN \<Longrightarrow>
   disconnect s = Raised (Error ''WebSocket is not open'') s"
  by (simp add: disconnect_def send_def)

lemma disconnect_cases:
  "disconnect s = Raised (Error ''WebSocket is not open'') s \<or>
   (\<exists>s'. disconnect s = Returned s' \<and> wsRef s' = None \<and> \<not> isConnected s' \<and>
      connectionStatus s' = ''Disconnected'' \<and> activeCommand s' = [] \<and> \<not> isConnecting s' \<and>
      speed s' = speed s \<and> timers s' = timers s \<and> commandTimeoutRef s' = commandTimeoutRef s)"
proof (cases "wsRef s")
  case None
  then show ?thesis by (simp add: disconnect_def)
next
  case (Some h)
  show ?thesis
  proof (cases "readyState (sockets s h) = OPEN")
    case True
    with Some show ?thesis
      by (simp add: disconnect_def send_def close_socket_fields Let_def)
  next
    case False
    with Some show ?thesis
      by (simp add: disconnect_not_open)
  qed
qed

lemma sendCommand_fields:
  "isConnected (state_of (sendCommand c s)) = isConnected s"
  "speed (state_of (sendCommand c s)) = speed s"
  by (simp_all add: sendCommand_def split: option.splits sum.splits)

lemma sendCommand_timers:
  "set (timers s) \<subseteq> set_option (commandTimeoutRef s) \<Longrightarrow>
   set (timers (state_of (sendCommand c s)))
     \<subseteq> set_option (commandTimeoutRef (state_of (sendCommand c s)))"
  by (auto simp add: sendCommand_def clearTimeout_def split: option.splits sum.splits)

lemma connect_fields:
  "isConnected (connect ev s) = isConnected s"
  "speed (connect ev s) = speed s"
  "timers (connect ev s) = timers s"
  "commandTimeoutRef (connect ev s) = commandTimeoutRef s"
  by (simp_all add: connect_def Let_def split: sum.splits)

lemma onopen_fields:
  "isConnected (state_of (onopen_handler h s)) = isConnected s"
  "speed (state_of (onopen_handler h s)) = speed s"
  "timers (state_of (onopen_handler h s)) = timers s"
  "commandTimeoutRef (state_of (onopen_handler h s)) = commandTimeoutRef s"
  by (simp_all add: onopen_handler_def Let_def split: sum.splits)

lemma onmessage_fields:
  "isConnected (onmessage_handler p s) = (isConnected s \<or> status_connected p)"
  "speed (onmessage_handler p s) = speed s"
  "timers (onmessage_handler p s) = timers s"
  "commandTimeoutRef (onmessage_handler p s) = commandTimeoutRef s"
  by (auto simp add: onmessage_handler_def status_connected_def split: option.splits sum.splits)

lemma cleanup_fields:
  "speed (cleanup s) = speed s"
  "timers (cleanup s) = clearTimeout (commandTimeoutRef s) (timers s)"
  by (simp_all add: cleanup_def close_socket_fields Let_def split: option.splits)

lemma cleanup_writes_nothing: "sent (sockets (cleanup s) k) = sent (sockets s k)"
  by (simp add: cleanup_def close_socket_fields Let_def split: option.splits)

lemma cleanup_isConnected: "isConnected (cleanup s) \<Longrightarrow> isConnected s"
  by (auto simp add: cleanup_def Let_def dest: close_socket_isConnected split: option.splits)

lemma step_connects:
  assumes "\<not> isConnected s" and "isConnected (step ev s e)"
  shows "\<exists>h p. e = WsMessage h p \<and> status_connected p"
proof (cases e)
  case (ChangeIp v) with assms show ?thesis by simp
next
  case Connect with assms show ?thesis by (simp add: connect_fields)
next
  case Disconnect with assms show ?thesis using disconnect_cases [of s] by auto
next
  case (TouchStart c) with assms show ?thesis by (simp add: handleTouchStart_def sendCommand_fields)
next
  case TouchEnd with assms show ?thesis
    by (simp add: handleTouchEnd_def sendCommand_fields split: if_splits)
next
  case (SpeedChange v) with assms show ?thesis
    by (simp add: handleSpeedChange_def sendCommand_fields Let_def split: if_splits)
next
  case EmergencyStop with assms show ?thesis by (simp add: emergencyStop_def sendCommand_fields)
next
  case (WsOpen h) with assms show ?thesis
    by (simp add: onopen_fields Let_def split: if_splits)
next
  case (WsMessage h p) with assms show ?thesis
    by (simp add: onmessage_fields split: if_splits)
next
  case (WsError h) with assms show ?thesis
    by (simp add: onerror_handler_def split: if_splits)
next
  case (WsClose h) with assms show ?thesis
    by (simp add: onclose_handler_def Let_def split: if_splits)
next
  case (TimerFires t) with assms show ?thesis
    by (simp add: timeout_fires_def split: if_splits)
next
  case Unmount with assms show ?thesis using cleanup_isConnected [of s] by simp
qed

lemma step_speed:
  "speed (step ev s e) = (case e of SpeedChange v \<Rightarrow> v | _ \<Rightarrow> speed s)"
proof (cases e)
  case Disconnect then show ?thesis using disconnect_cases [of s] by auto
next
  case (SpeedChange v) then show ?thesis
    by (simp add: handleSpeedChange_def sendCommand_fields Let_def)
qed (simp_all add: connect_fields handleTouchStart_def handleTouchEnd_def emergencyStop_def
       sendCommand_fields onopen_fields onmessage_fields onerror_handler_def onclose_handler_def
       timeout_fires_def cleanup_fields Let_def)

lemma step_timers:
  assumes "set (timers s) \<subseteq> set_option (commandTimeoutRef s)"
  shows "set (timers (step ev s e)) \<subseteq> set_option (commandTimeoutRef (step ev s e))"
proof (cases e)
  case Disconnect with assms show ?thesis using disconnect_cases [of s] by auto
next
  case (TouchStart c) with assms show ?thesis
    by (simp add: handleTouchStart_def sendCommand_timers)
next
  case TouchEnd with assms show ?thesis
    by (simp add: handleTouchEnd_def sendCommand_timers)
next
  case (SpeedChange v)
  have "set (timers (s\<lparr>speed := v\<rparr>)) \<subseteq> set_option (commandTimeoutRef (s\<lparr>speed := v\<rparr>))"
    using assms by simp
  from sendCommand_timers [OF this] SpeedChange assms show ?thesis
    by (simp add: handleSpeedChange_def Let_def)
next
  case EmergencyStop with assms show ?thesis
    by (simp add: emergencyStop_def sendCommand_timers)
next
  case (TimerFires t) with assms show ?thesis
    by (auto simp add: timeout_fires_def)
next
  case Unmount with assms show ?thesis
    by (auto simp add: cleanup_fields cleanup_def Let_def close_socket_fields clearTimeout_def
          split: option.splits)
qed (insert assms, simp_all add: connect_fields onopen_fields onmessage_fields
       onerror_handler_def onclose_handler_def Let_def)

lemma run_snoc: "run ev s (es @ [e]) = step ev (run ev s es) e"
  by (simp add: run_def)

lemma run_timers:
  "set (timers (run ev initial es)) \<subseteq> set_option (commandTimeoutRef (run ev initial es))"
proof (induction es rule: rev_induct)
  case Nil
  show ?case by (simp add: run_def initial_def)
next
  case (snoc e es)
  then show ?case by (simp add: run_snoc step_timers)
qed

lemma run_speed:
  "list_all slider_event es \<Longrightarrow> slider_value (speed (run ev initial es))"
proof (induction es rule: rev_induct)
  case Nil
  show ?case by (simp add: run_def initial_def slider_value_def)
next
  case (snoc e es)
  have "speed (run ev initial (es @ [e]))
          = (case e of SpeedChange v \<Rightarrow> v | _ \<Rightarrow> speed (run ev initial es))"
    by (simp only: run_snoc step_speed)
  with snoc show ?case by (cases e) simp_all
qed

lemma disconnect_no_socket:
  assumes "wsRef s = None" "\<not> isConnected s" "connectionStatus s = ''Disconnected''"
    "activeCommand s = []" "\<not> isConnecting s"
  shows "disconnect s = Returned s"
proof -
  have "s\<lparr>isConnected := False, connectionStatus := ''Disconnected'',
           activeCommand := [], isConnecting := False\<rparr> = s"
    using assms by (cases s) simp
  with assms(1) show ?thesis by (simp add: disconnect_def)
qed

lemma disconnect_open:
  assumes "wsRef s = Some h" "readyState (sockets s h) = OPEN"
  shows "\<exists>s'. disconnect s = Returned s' \<and>
           sent (sockets s' h) = sent (sockets s h) @ [disconnect_frame] \<and>
           readyState (sockets s' h) = CLOSED"
  using assms by (simp add: disconnect_def send_def close_socket_fields Let_def)

lemma sendCommand_writes:
  "connected s h \<Longrightarrow>
   \<exists>s'. sendCommand c s = Returned s' \<and> sent (sockets s' h) = sent (sockets s h) @ [c]"
  by (simp add: sendCommand_connected)

lemma onopen_writes:
  "readyState (sockets s h) = OPEN \<Longrightarrow>
   \<exists>s'. onopen_handler h s = Returned s' \<and>
        sent (sockets s' h) = sent (sockets s h) @ [connect_frame]"
  by (simp add: onopen_handler_def send_def Let_def)

lemma handleTouchEnd_connected:
  assumes "connected s h"
  shows "\<exists>s'. handleTouchEnd s = Returned s' \<and>
           sent (sockets s' h) = sent (sockets s h) @
             (if activeCommand s \<in> set [''U'', ''D'', ''L'', ''R''] then [''H''] else [])"
  using assms sendCommand_connected [OF assms]
  by (auto simp add: handleTouchEnd_def)

lemma connected_since:
  "isConnected (run ev initial es) \<Longrightarrow>
   \<exists>pre h p post. es = pre @ WsMessage h p # post \<and> status_connected p \<and>
      (\<forall>k \<le> length post. isConnected (run ev initial (pre @ WsMessage h p # take k post)))"
proof (induction es rule: rev_induct)
  case Nil
  then show ?case by (simp add: run_def initial_def)
next
  case (snoc e es)
  show ?case
  proof (cases "isConnected (run ev initial es)")
    case True
    from snoc.IH [OF True] obtain pre h p post where
      d: "es = pre @ WsMessage h p # post" and sc: "status_connected p" and
      al: "\<forall>k \<le> length post. isConnected (run ev initial (pre @ WsMessage h p # take k post))"
      by blast
    have "\<forall>k \<le> length (post @ [e]).
            isConnected (run ev initial (pre @ WsMessage h p # take k (post @ [e])))"
    proof (intro allI impI)
      fix k assume k: "k \<le> length (post @ [e])"
      show "isConnected (run ev initial (pre @ WsMessage h p # take k (post @ [e])))"
      proof (cases "k \<le> length post")
        case True
        with al show ?thesis by simp
      next
        case False
        with k have "take k (post @ [e]) = post @ [e]" by simp
        with snoc.prems d show ?thesis by simp
      qed
    qed
    with d sc show ?thesis
      by (intro exI [of _ pre] exI [of _ h] exI [of _ p] exI [of _ "post @ [e]"]) simp
  next
    case False
    from snoc.prems have "isConnected (step ev (run ev initial es) e)"
      by (simp add: run_snoc)
    from step_connects [OF False this] obtain h p where
      e: "e = WsMessage h p" and sc: "status_connected p" by blast
    from snoc.prems e sc show ?thesis
      by (intro exI [of _ es] exI [of _ h] exI [of _ p] exI [of _ "[]"]) simp
  qed
qed

section \<open>Press and hold\<close>

text \<open>
  C1. The claim: whenever a press-and-hold gesture on a directional button ends, the
  halt command \<open>H\<close> is sent, however long the button was held. The code decides by
  \<open>activeCommand\<close>, which the timeout of \<open>sendCommand\<close> clears 150 ms after the press.
  In a connected session, pressing \<open>U\<close>, holding until that timeout has fired, and
  releasing writes \<open>U\<close> and nothing after it: no \<open>H\<close> reaches the channel.
\<close>

theorem release_after_timeout_sends_no_halt:
  "sent (sockets (run mock_env initial
       [Connect, WsOpen 0, WsMessage 0 status_up, TouchStart ''U'', TimerFires 0, TouchEnd]) 0)
   = [connect_frame, ''U'']"
  by (simp add: eval_defs)

text \<open>Released before the timeout fires, the same gesture does send \<open>H\<close>.\<close>

lemma release_before_timeout_sends_halt:
  "sent (sockets (run mock_env initial
       [Connect, WsOpen 0, WsMessage 0 status_up, TouchStart ''U'', TouchEnd]) 0)
   = [connect_frame, ''U'', ''H'']"
  by (simp add: eval_defs)

section \<open>Sending while not connected\<close>

text \<open>
  C2, as stated: a send issued while the session is not connected writes nothing and
  yields an error to the caller. In the initial state, which is not connected,
  \<open>sendCommand\<close> returns normally and changes nothing: there is no error.
\<close>

theorem sendCommand_initial_returns:
  "\<not> isConnected initial \<and> sendCommand ''U'' initial = Returned initial"
  by (simp add: sendCommand_def initial_def)

text \<open>
  C2, amended: a send issued while the controller is not connected (\<open>isConnected\<close> is
  false, or no socket is held) is dropped silently: \<open>sendCommand\<close> returns with the
  state unchanged, so nothing is written and no error is produced. When the controller
  is connected but the held socket is not open, the send raises
  \<open>WebSocket is not open\<close> and changes nothing; \<open>send\<close> of the socket raises that error
  on every socket that is not open.
\<close>

theorem sendCommand_not_connected:
  "(\<not> isConnected s \<or> wsRef s = None \<longrightarrow> sendCommand c s = Returned s) \<and>
   (isConnected s \<and> wsRef s = Some h \<and> readyState (sockets s h) \<noteq> OPEN \<longrightarrow>
      sendCommand c s = Raised (Error ''WebSocket is not open'') s) \<and>
   (readyState ws \<noteq> OPEN \<longrightarrow> send c ws = Inl (Error ''WebSocket is not open''))"
  by (auto simp add: sendCommand_def send_def split: option.splits)

theorem sendCommand_not_connected_witness:
  "(\<not> isConnected initial \<and> sendCommand ''U'' initial = Returned initial) \<and>
   (isConnected (connecting_example\<lparr>isConnected := True\<rparr>) \<and>
    wsRef (connecting_example\<lparr>isConnected := True\<rparr>) = Some 0 \<and>
    readyState (sockets (connecting_example\<lparr>isConnected := True\<rparr>) 0) \<noteq> OPEN \<and>
    sendCommand ''U'' (connecting_example\<lparr>isConnected := True\<rparr>) =
      Raised (Error ''WebSocket is not open'') (connecting_example\<lparr>isConnected := True\<rparr>)) \<and>
   (readyState (MockWebSocket (js ''ws://robot'')) \<noteq> OPEN \<and>
    send ''U'' (MockWebSocket (js ''ws://robot'')) = Inl (Error ''WebSocket is not open''))"
  using sendCommand_not_connected
          [where s = initial and c = "''U''" and h = 0 and ws = "MockWebSocket (js ''ws://robot'')"]
        sendCommand_not_connected
          [where s = "connecting_example\<lparr>isConnected := True\<rparr>" and c = "''U''" and h = 0
             and ws = "MockWebSocket (js ''ws://robot'')"]
        connecting_example_held
  by (simp add: initial_def MockWebSocket_def)

section \<open>Sending while connected\<close>

text \<open>
  C3. In a connected session every call of \<open>sendCommand\<close> returns and appends its
  command to what the held socket has sent: a sequence of calls writes exactly its
  commands, one write each, in the order of the calls, keeps the session connected,
  and touches no other socket.
\<close>

theorem sendCommands_in_order:
  "connected s h \<Longrightarrow>
   \<exists>s'. sendCommands cs s = Returned s' \<and> connected s' h \<and>
        sent (sockets s' h) = sent (sockets s h) @ cs \<and>
        (\<forall>k. k \<noteq> h \<longrightarrow> sockets s' k = sockets s k)"
proof (induction cs arbitrary: s)
  case Nil
  then show ?case by simp
next
  case (Cons c cs)
  note eq = sendCommand_connected [OF Cons.prems, of c]
  obtain s1 where r: "sendCommand c s = Returned s1"
    by (simp add: eq)
  from Cons.prems r have c1: "connected s1 h"
    by (auto simp add: eq connected_def)
  from r have w1: "sent (sockets s1 h) = sent (sockets s h) @ [c]"
    by (auto simp add: eq)
  from r have o1: "\<forall>k. k \<noteq> h \<longrightarrow> sockets s1 k = sockets s k"
    by (auto simp add: eq)
  from Cons.IH [OF c1] obtain s' where
    "sendCommands cs s1 = Returned s'" "connected s' h"
    "sent (sockets s' h) = sent (sockets s1 h) @ cs"
    "\<forall>k. k \<noteq> h \<longrightarrow> sockets s' k = sockets s1 k"
    by blast
  with r w1 o1 show ?case by simp
qed

theorem sendCommands_in_order_witness:
  "connected connected_example 0 \<and>
   (\<exists>s'. sendCommands [''U'', ''H''] connected_example = Returned s' \<and>
      sent (sockets s' 0) = [connect_frame, ''U'', ''H''])"
  using sendCommands_in_order [of connected_example 0 "[''U'', ''H'']"]
        connected_example_connected
  by (auto simp add: connected_example_sent)

section \<open>Errors and what the user sees\<close>

text \<open>
  C4, as stated: every error, a connect attempt with an empty host included, is shown
  to the user. With an empty host, \<open>connect\<close> returns the state it was given: the
  status still reads \<open>Disconnected\<close> and nothing else has changed.
\<close>

theorem connect_empty_host_is_silent:
  "trim [] = [] \<and>
   connect mock_env (initial\<lparr>ipAddress := []\<rparr>) = initial\<lparr>ipAddress := []\<rparr> \<and>
   connectionStatus (connect mock_env (initial\<lparr>ipAddress := []\<rparr>)) = ''Disconnected''"
  by (simp add: connect_def trim_def initial_def)

text \<open>
  C4, amended: three kinds of error are shown in the connection status: an exception of
  the socket constructor in \<open>connect\<close> and a received message of type \<open>error\<close> as
  \<open>Connection Failed\<close>, an error event of the socket as \<open>WebSocket Error\<close>. The other
  error paths are silent. A connect attempt whose host is empty or blank is not treated
  as an error by the controller: \<open>connect\<close> returns at once and leaves the whole state
  as it was (only \<open>MockWebSocket.connect\<close> rejects such a host, with
  \<open>Invalid IP address\<close>). A message that cannot be parsed, or that parses to \<open>null\<close>,
  leaves the state as it was. An exception of \<open>send\<close> leaves \<open>sendCommand\<close> and
  \<open>disconnect\<close> with the state as it was, and leaves the open handler with the status
  \<open>Establishing robot connection...\<close>: it is not shown either.
\<close>

theorem error_notifications:
  "(trim (ipAddress s) = [] \<longrightarrow> connect ev s = s) \<and>
   (trim (ipAddress s) \<noteq> [] \<and> new_WebSocket ev (wsUrl ev (ipAddress s)) = Inl e \<longrightarrow>
      connectionStatus (connect ev s) = ''Connection Failed'') \<and>
   connectionStatus (onerror_handler s) = ''WebSocket Error'' \<and>
   (member m ''type'' = Inr (Some (JStr ''error'')) \<longrightarrow>
      connectionStatus (onmessage_handler (Some m) s) = ''Connection Failed'') \<and>
   onmessage_handler None s = s \<and>
   (trim ip = [] \<longrightarrow> mock_connect ip = Inl (Error ''Invalid IP address'')) \<and>
   onmessage_handler (Some JNull) s = s \<and>
   (sendCommand c s = Raised e1 s1 \<longrightarrow> s1 = s) \<and>
   (disconnect s = Raised e2 s2 \<longrightarrow> s2 = s) \<and>
   (onopen_handler h s = Raised e3 s3 \<longrightarrow>
      connectionStatus s3 = ''Establishing robot connection...'')"
proof (intro conjI)
  show "trim (ipAddress s) = [] \<longrightarrow> connect ev s = s"
    by (simp add: connect_def)
  show "trim (ipAddress s) \<noteq> [] \<and> new_WebSocket ev (wsUrl ev (ipAddress s)) = Inl e \<longrightarrow>
      connectionStatus (connect ev s) = ''Connection Failed''"
    by (simp add: connect_def)
  show "connectionStatus (onerror_handler s) = ''WebSocket Error''"
    by (simp add: onerror_handler_def)
  show "member m ''type'' = Inr (Some (JStr ''error'')) \<longrightarrow>
      connectionStatus (onmessage_handler (Some m) s) = ''Connection Failed''"
    by (simp add: onmessage_handler_def)
  show "onmessage_handler None s = s"
    by (simp add: onmessage_handler_def)
  show "trim ip = [] \<longrightarrow> mock_connect ip = Inl (Error ''Invalid IP address'')"
    by (simp add: mock_connect_def)
  show "onmessage_handler (Some JNull) s = s"
    by (simp add: onmessage_handler_def)
  show "sendCommand c s = Raised e1 s1 \<longrightarrow> s1 = s"
    by (simp add: sendCommand_def split: option.splits sum.splits)
  show "disconnect s = Raised e2 s2 \<longrightarrow> s2 = s"
    using disconnect_cases [of s] by auto
  show "onopen_handler h s = Raised e3 s3 \<longrightarrow>
      connectionStatus s3 = ''Establishing robot connection...''"
    by (auto simp add: onopen_handler_def Let_def split: sum.splits)
qed

theorem error_notifications_witness:
  "(trim (ipAddress (initial\<lparr>ipAddress := [0xA0, 0x20, 0xFEFF, 0x09]\<rparr>)) = [] \<and>
    connect mock_env (initial\<lparr>ipAddress := [0xA0, 0x20, 0xFEFF, 0x09]\<rparr>)
      = initial\<lparr>ipAddress := [0xA0, 0x20, 0xFEFF, 0x09]\<rparr>) \<and>
   (trim (ipAddress initial) \<noteq> [] \<and>
    new_WebSocket failing_env (wsUrl failing_env (ipAddress initial)) = Inl (Error ''SyntaxError'') \<and>
    connectionStatus (connect failing_env initial) = ''Connection Failed'') \<and>
   (member (JObj [(''type'', JStr ''error''), (''message'', JStr ''refused'')]) ''type''
      = Inr (Some (JStr ''error'')) \<and>
    connectionStatus
      (onmessage_handler (Some (JObj [(''type'', JStr ''error''), (''message'', JStr ''refused'')]))
         connected_example) = ''Connection Failed'') \<and>
   (trim [0xA0] = [] \<and> mock_connect [0xA0] = Inl (Error ''Invalid IP address'')) \<and>
   (sendCommand ''U'' (connecting_example\<lparr>isConnected := True\<rparr>)
      = Raised (Error ''WebSocket is not open'') (connecting_example\<lparr>isConnected := True\<rparr>)) \<and>
   (disconnect connecting_example
      = Raised (Error ''WebSocket is not open'') connecting_example) \<and>
   (\<exists>s3. onopen_handler 0 connecting_example = Raised (Error ''WebSocket is not open'') s3 \<and>
      connectionStatus s3 = ''Establishing robot connection...'')"
proof -
  let ?blank = "initial\<lparr>ipAddress := [0xA0, 0x20, 0xFEFF, 0x09]\<rparr>"
  let ?m = "JObj [(''type'', JStr ''error''), (''message'', JStr ''refused'')]"
  let ?half = "connecting_example\<lparr>isConnected := True\<rparr>"
  have a: "trim (ipAddress ?blank) = []"
    by (simp add: trim_def js_whitespace_def)
  have b: "trim (ipAddress initial) \<noteq> [] \<and>
           new_WebSocket failing_env (wsUrl failing_env (ipAddress initial))
             = Inl (Error ''SyntaxError'')"
    by (simp add: initial_def trim_def js_whitespace_def js_def failing_env_def)
  have c: "member ?m ''type'' = Inr (Some (JStr ''error''))"
    by simp
  have d: "trim [0xA0] = []"
    by (simp add: trim_def js_whitespace_def)
  have f: "sendCommand ''U'' ?half = Raised (Error ''WebSocket is not open'') ?half"
    using connecting_example_held by (simp add: sendCommand_def send_def)
  have g: "disconnect connecting_example
             = Raised (Error ''WebSocket is not open'') connecting_example"
    using connecting_example_held disconnect_not_open [of connecting_example 0] by simp
  obtain s3 where k: "onopen_handler 0 connecting_example
                        = Raised (Error ''WebSocket is not open'') s3"
    using connecting_example_held by (simp add: onopen_handler_def send_def Let_def)
  note t1 = error_notifications [where s = ?blank and ev = mock_env and ip = "[0xA0]"
              and m = ?m and e = "Error ''SyntaxError''" and c = "''U''" and h = 0]
  note t2 = error_notifications [where s = initial and ev = failing_env and ip = "[0xA0]"
              and m = ?m and e = "Error ''SyntaxError''" and c = "''U''" and h = 0]
  note t3 = error_notifications [where s = connected_example and ev = mock_env
              and ip = "[0xA0]" and m = ?m and e = "Error ''SyntaxError''" and c = "''U''"
              and h = 0]
  note t4 = error_notifications [where s = connecting_example and ev = mock_env
              and ip = "[0xA0]" and m = ?m and e = "Error ''SyntaxError''" and c = "''U''"
              and h = 0 and ?e3.0 = "Error ''WebSocket is not open''" and ?s3.0 = s3]
  from a t1 have A: "connect mock_env ?blank = ?blank" by blast
  from b t2 have B: "connectionStatus (connect failing_env initial) = ''Connection Failed''"
    by blast
  from c t3 have C: "connectionStatus (onmessage_handler (Some ?m) connected_example)
                       = ''Connection Failed''"
    by blast
  from d t1 have D: "mock_connect [0xA0] = Inl (Error ''Invalid IP address'')" by blast
  from k t4 have K: "connectionStatus s3 = ''Establishing robot connection...''" by blast
  from k K have K': "\<exists>s3. onopen_handler 0 connecting_example
                          = Raised (Error ''WebSocket is not open'') s3 \<and>
                        connectionStatus s3 = ''Establishing robot connection...''"
    by blast
  from a A b B c C d D f g K' show ?thesis
    by (intro conjI) blast+
qed

section \<open>Disconnecting twice\<close>

text \<open>
  C5, as stated: in every session state a second \<open>disconnect\<close> raises no error. In the
  state after Connect has been pressed the held socket is still connecting: \<open>disconnect\<close>
  raises at its \<open>send\<close> and changes nothing, so a second call raises again.
\<close>

theorem disconnect_while_connecting_raises:
  "wsRef connecting_example = Some 0 \<and>
   disconnect connecting_example = Raised (Error ''WebSocket is not open'') connecting_example \<and>
   disconnect (state_of (disconnect connecting_example))
     = Raised (Error ''WebSocket is not open'') connecting_example"
  using connecting_example_held disconnect_not_open [of connecting_example 0]
  by simp

text \<open>
  C5, amended: in every session state, two calls of \<open>disconnect\<close> in a row leave the
  same final state as one. Whenever the first call returns, which it does when no
  socket is held or the held socket is open, the second call returns too and changes
  nothing: over both calls exactly one disconnect message is written to a held socket,
  which is then closed, and nothing is written when no socket is held. When the held
  socket is not open, \<open>disconnect\<close> raises \<open>WebSocket is not open\<close> before it changes
  anything, on every call. \<open>close\<close> of the socket can be repeated: it leaves the
  socket closed and calls the \<open>onclose\<close> slot again.
\<close>

theorem disconnect_twice:
  "state_of (disconnect (state_of (disconnect s))) = state_of (disconnect s) \<and>
   (returned (disconnect s) \<longrightarrow>
      disconnect (state_of (disconnect s)) = Returned (state_of (disconnect s))) \<and>
   (wsRef s = None \<longrightarrow> returned (disconnect s) \<and> sockets (state_of (disconnect s)) = sockets s) \<and>
   (wsRef s = Some h \<and> readyState (sockets s h) = OPEN \<longrightarrow>
      returned (disconnect s) \<and>
      sent (sockets (state_of (disconnect (state_of (disconnect s)))) h)
        = sent (sockets s h) @ [disconnect_frame] \<and>
      readyState (sockets (state_of (disconnect s)) h) = CLOSED) \<and>
   (wsRef s = Some h \<and> readyState (sockets s h) \<noteq> OPEN \<longrightarrow>
      disconnect s = Raised (Error ''WebSocket is not open'') s) \<and>
   close (fst (close ws)) = (fst (close ws), onclose ws)"
proof -
  have twice: "returned (disconnect s) \<longrightarrow>
      disconnect (state_of (disconnect s)) = Returned (state_of (disconnect s))"
    using disconnect_cases [of s] by (auto simp add: disconnect_no_socket)
  have same: "state_of (disconnect (state_of (disconnect s))) = state_of (disconnect s)"
    using disconnect_cases [of s] by (auto simp add: disconnect_no_socket)
  have none: "wsRef s = None \<longrightarrow>
      returned (disconnect s) \<and> sockets (state_of (disconnect s)) = sockets s"
    by (simp add: disconnect_def)
  have opn: "wsRef s = Some h \<and> readyState (sockets s h) = OPEN \<longrightarrow>
      returned (disconnect s) \<and>
      sent (sockets (state_of (disconnect (state_of (disconnect s)))) h)
        = sent (sockets s h) @ [disconnect_frame] \<and>
      readyState (sockets (state_of (disconnect s)) h) = CLOSED"
    using disconnect_open [of s h] same by auto
  have nopn: "wsRef s = Some h \<and> readyState (sockets s h) \<noteq> OPEN \<longrightarrow>
      disconnect s = Raised (Error ''WebSocket is not open'') s"
    by (simp add: disconnect_not_open)
  have cl: "close (fst (close ws)) = (fst (close ws), onclose ws)"
    by (simp add: close_def)
  from twice same none opn nopn cl show ?thesis
    by (intro conjI)
qed

theorem disconnect_twice_witness:
  "(wsRef initial = None \<and> returned (disconnect initial) \<and>
    disconnect (state_of (disconnect initial)) = Returned (state_of (disconnect initial))) \<and>
   (wsRef connected_example = Some 0 \<and> readyState (sockets connected_example 0) = OPEN \<and>
    returned (disconnect connected_example) \<and>
    disconnect (state_of (disconnect connected_example))
      = Returned (state_of (disconnect connected_example)) \<and>
    sent (sockets (state_of (disconnect (state_of (disconnect connected_example)))) 0)
      = [connect_frame, disconnect_frame]) \<and>
   (wsRef connecting_example = Some 0 \<and> readyState (sockets connecting_example 0) \<noteq> OPEN \<and>
    disconnect connecting_example = Raised (Error ''WebSocket is not open'') connecting_example)"
proof -
  have a: "wsRef initial = None"
    by (simp add: initial_def)
  have b: "wsRef connected_example = Some 0 \<and> readyState (sockets connected_example 0) = OPEN"
    using connected_example_connected by (simp add: connected_def)
  have c: "wsRef connecting_example = Some 0 \<and>
           readyState (sockets connecting_example 0) \<noteq> OPEN"
    using connecting_example_held by simp
  from a disconnect_twice [where s = initial and h = 0 and ws = "MockWebSocket []"]
  have A: "returned (disconnect initial) \<and>
           disconnect (state_of (disconnect initial)) = Returned (state_of (disconnect initial))"
    by blast
  from b disconnect_twice [where s = connected_example and h = 0 and ws = "MockWebSocket []"]
  have B: "returned (disconnect connected_example) \<and>
           disconnect (state_of (disconnect connected_example))
             = Returned (state_of (disconnect connected_example))"
    and B1: "sent (sockets (state_of (disconnect (state_of (disconnect connected_example)))) 0)
             = sent (sockets connected_example 0) @ [disconnect_frame]"
    by blast+
  from B1 have B2:
    "sent (sockets (state_of (disconnect (state_of (disconnect connected_example)))) 0)
       = [connect_frame, disconnect_frame]"
    by (simp only: connected_example_sent append.simps)
  from c disconnect_twice [where s = connecting_example and h = 0 and ws = "MockWebSocket []"]
  have C: "disconnect connecting_example
             = Raised (Error ''WebSocket is not open'') connecting_example"
    by blast
  from a b c A B B2 C show ?thesis
    by blast
qed

section \<open>The two forms of message\<close>

lemma handleSpeedChange_writes:
  assumes "connected s h"
  shows "sent (sockets (state_of (handleSpeedChange v s)) h) = sent (sockets s h) @
           (if first v = first (speed s) then []
            else if js_greater (first v) (first (speed s)) then [''W''] else [''S''])"
proof (cases "first v = first (speed s)")
  case True
  then show ?thesis
    by (simp add: handleSpeedChange_def Let_def)
next
  case False
  from assms have c1: "connected (s\<lparr>speed := v\<rparr>) h"
    by (simp add: connected_def)
  let ?c = "if js_greater (first v) (first (speed s)) then ''W'' else ''S''"
  from False assms sendCommand_connected [OF c1, of ?c] show ?thesis
    by (simp add: handleSpeedChange_def Let_def connected_def)
qed

text \<open>
  C6. All that the controller writes goes through \<open>send\<close> of the socket it holds, the
  one \<open>connect\<close> has created and given the open handler. When that socket opens, the
  handler writes the JSON text \<open>{"type":"connect"}\<close>; \<open>disconnect\<close> writes the JSON text
  \<open>{"type":"disconnect"}\<close>; \<open>sendCommand\<close> writes the command string itself, with
  nothing around it. In a connected session a press of a directional button writes
  exactly its letter, a stop button exactly \<open>H\<close>, a release \<open>H\<close> or nothing, a change
  of the slider \<open>W\<close>, \<open>S\<close> or nothing. So every gesture of the panel writes at most one
  frame, one of the single letters \<open>U D L R H W S\<close>; each of them is one character
  long, is neither of the two JSON texts and does not open with a brace.
\<close>

theorem message_forms:
  \<open>(readyState (sockets s h) = OPEN \<longrightarrow>
      (\<exists>s'. onopen_handler h s = Returned s' \<and>
         sent (sockets s' h) = sent (sockets s h) @ [''{"type":"connect"}''])) \<and>
   (wsRef s = Some h \<and> readyState (sockets s h) = OPEN \<longrightarrow>
      (\<exists>s'. disconnect s = Returned s' \<and>
         sent (sockets s' h) = sent (sockets s h) @ [''{"type":"disconnect"}''])) \<and>
   (connected s h \<longrightarrow>
      (\<exists>s'. sendCommand c s = Returned s' \<and> sent (sockets s' h) = sent (sockets s h) @ [c])) \<and>
   (connected s h \<and> gesture e \<longrightarrow>
      (\<exists>fs. sent (sockets (step ev s e) h) = sent (sockets s h) @ fs \<and> length fs \<le> 1 \<and>
         set fs \<subseteq> set [''U'', ''D'', ''L'', ''R'', ''H'', ''W'', ''S''])) \<and>
   (connected s h \<longrightarrow>
      sent (sockets (state_of (handleTouchStart c s)) h) = sent (sockets s h) @ [c] \<and>
      sent (sockets (state_of (emergencyStop s)) h) = sent (sockets s h) @ [''H''] \<and>
      sent (sockets (state_of (handleTouchEnd s)) h) = sent (sockets s h) @
        (if activeCommand s \<in> set [''U'', ''D'', ''L'', ''R''] then [''H''] else []) \<and>
      sent (sockets (state_of (handleSpeedChange v s)) h) = sent (sockets s h) @
        (if first v = first (speed s) then []
         else if js_greater (first v) (first (speed s)) then [''W''] else [''S''])) \<and>
   (\<forall>f \<in> set [''U'', ''D'', ''L'', ''R'', ''H'', ''W'', ''S''].
      length f = 1 \<and> f \<noteq> ''{"type":"connect"}'' \<and> f \<noteq> ''{"type":"disconnect"}'' \<and>
      hd f \<noteq> CHR ''{'') \<and>
   (trim (ipAddress s) \<noteq> [] \<and> new_WebSocket ev (wsUrl ev (ipAddress s)) = Inr ws \<longrightarrow>
      wsRef (connect ev s) = Some (nextSocket s) \<and>
      onopen (sockets (connect ev s) (nextSocket s)) \<and>
      sent (sockets (connect ev s) (nextSocket s)) = sent ws)\<close>
proof -
  have 1: \<open>readyState (sockets s h) = OPEN \<longrightarrow>
      (\<exists>s'. onopen_handler h s = Returned s' \<and>
         sent (sockets s' h) = sent (sockets s h) @ [''{"type":"connect"}''])\<close>
    using onopen_writes [of s h] by (simp add: connect_frame_def)
  have 2: \<open>wsRef s = Some h \<and> readyState (sockets s h) = OPEN \<longrightarrow>
      (\<exists>s'. disconnect s = Returned s' \<and>
         sent (sockets s' h) = sent (sockets s h) @ [''{"type":"disconnect"}''])\<close>
    using disconnect_open [of s h] by (auto simp add: disconnect_frame_def)
  have 3: "connected s h \<longrightarrow>
      (\<exists>s'. sendCommand c s = Returned s' \<and> sent (sockets s' h) = sent (sockets s h) @ [c])"
    using sendCommand_writes by blast
  have 5: "connected s h \<longrightarrow>
      sent (sockets (state_of (handleTouchStart c s)) h) = sent (sockets s h) @ [c] \<and>
      sent (sockets (state_of (emergencyStop s)) h) = sent (sockets s h) @ [''H''] \<and>
      sent (sockets (state_of (handleTouchEnd s)) h) = sent (sockets s h) @
        (if activeCommand s \<in> set [''U'', ''D'', ''L'', ''R''] then [''H''] else []) \<and>
      sent (sockets (state_of (handleSpeedChange v s)) h) = sent (sockets s h) @
        (if first v = first (speed s) then []
         else if js_greater (first v) (first (speed s)) then [''W''] else [''S''])"
  proof
    assume c: "connected s h"
    have a: "sent (sockets (state_of (handleTouchStart c s)) h) = sent (sockets s h) @ [c]"
      by (simp add: handleTouchStart_def sendCommand_connected [OF c])
    have b: "sent (sockets (state_of (emergencyStop s)) h) = sent (sockets s h) @ [''H'']"
      by (simp add: emergencyStop_def sendCommand_connected [OF c])
    have d: "sent (sockets (state_of (handleTouchEnd s)) h) = sent (sockets s h) @
        (if activeCommand s \<in> set [''U'', ''D'', ''L'', ''R''] then [''H''] else [])"
      using handleTouchEnd_connected [OF c] by auto
    note f = handleSpeedChange_writes [OF c, of v]
    from a b d f show
      "sent (sockets (state_of (handleTouchStart c s)) h) = sent (sockets s h) @ [c] \<and>
       sent (sockets (state_of (emergencyStop s)) h) = sent (sockets s h) @ [''H''] \<and>
       sent (sockets (state_of (handleTouchEnd s)) h) = sent (sockets s h) @
         (if activeCommand s \<in> set [''U'', ''D'', ''L'', ''R''] then [''H''] else []) \<and>
       sent (sockets (state_of (handleSpeedChange v s)) h) = sent (sockets s h) @
         (if first v = first (speed s) then []
          else if js_greater (first v) (first (speed s)) then [''W''] else [''S''])"
      by (intro conjI)
  qed
  have 4: "connected s h \<and> gesture e \<longrightarrow>
      (\<exists>fs. sent (sockets (step ev s e) h) = sent (sockets s h) @ fs \<and> length fs \<le> 1 \<and>
         set fs \<subseteq> set [''U'', ''D'', ''L'', ''R'', ''H'', ''W'', ''S''])"
  proof (intro impI, elim conjE)
    assume c: "connected s h" and g: "gesture e"
    show "\<exists>fs. sent (sockets (step ev s e) h) = sent (sockets s h) @ fs \<and> length fs \<le> 1 \<and>
         set fs \<subseteq> set [''U'', ''D'', ''L'', ''R'', ''H'', ''W'', ''S'']"
    proof (cases e)
      case (TouchStart x)
      with g have "x \<in> set [''U'', ''L'', ''R'', ''D'']" by simp
      with TouchStart sendCommand_connected [OF c, of x] show ?thesis
        by (intro exI [of _ "[x]"]) (auto simp add: handleTouchStart_def)
    next
      case TouchEnd
      with handleTouchEnd_connected [OF c] show ?thesis
        by (intro exI [of _ "if activeCommand s \<in> set [''U'', ''D'', ''L'', ''R''] then [''H'']
                             else []"])
           auto
    next
      case EmergencyStop
      with sendCommand_connected [OF c, of "''H''"] show ?thesis
        by (intro exI [of _ "[''H'']"]) (simp add: emergencyStop_def)
    next
      case (SpeedChange v)
      from c have c1: "connected (s\<lparr>speed := v\<rparr>) h"
        by (simp add: connected_def)
      show ?thesis
      proof (cases "first v \<noteq> first (speed s)")
        case True
        let ?c = "if js_greater (first v) (first (speed s)) then ''W'' else ''S''"
        from True c SpeedChange sendCommand_connected [OF c1, of ?c] show ?thesis
          by (intro exI [of _ "[?c]"]) (simp add: handleSpeedChange_def Let_def connected_def)
      next
        case False
        with SpeedChange show ?thesis
          by (intro exI [of _ "[]"]) (simp add: handleSpeedChange_def Let_def)
      qed
    qed (insert g, simp_all)
  qed
  have 6: \<open>\<forall>f \<in> set [''U'', ''D'', ''L'', ''R'', ''H'', ''W'', ''S''].
      length f = 1 \<and> f \<noteq> ''{"type":"connect"}'' \<and> f \<noteq> ''{"type":"disconnect"}'' \<and>
      hd f \<noteq> CHR ''{''\<close>
    by simp
  have 7: "trim (ipAddress s) \<noteq> [] \<and> new_WebSocket ev (wsUrl ev (ipAddress s)) = Inr ws \<longrightarrow>
      wsRef (connect ev s) = Some (nextSocket s) \<and>
      onopen (sockets (connect ev s) (nextSocket s)) \<and>
      sent (sockets (connect ev s) (nextSocket s)) = sent ws"
    by (simp add: connect_def Let_def)
  from 1 2 3 4 5 6 7 show ?thesis
    by (intro conjI)
qed

theorem message_forms_witness:
  \<open>(readyState (sockets connected_example 0) = OPEN \<and>
    (\<exists>s'. onopen_handler 0 connected_example = Returned s' \<and>
       sent (sockets s' 0) = [''{"type":"connect"}'', ''{"type":"connect"}''])) \<and>
   (wsRef connected_example = Some 0 \<and>
    (\<exists>s'. disconnect connected_example = Returned s' \<and>
       sent (sockets s' 0) = [''{"type":"connect"}'', ''{"type":"disconnect"}''])) \<and>
   (connected connected_example 0 \<and>
    (\<exists>s'. sendCommand ''U'' connected_example = Returned s' \<and>
       sent (sockets s' 0) = [''{"type":"connect"}'', ''U''])) \<and>
   (gesture (TouchStart ''L'') \<and>
    (\<exists>fs. sent (sockets (step mock_env connected_example (TouchStart ''L'')) 0)
             = [''{"type":"connect"}''] @ fs \<and> length fs \<le> 1 \<and>
           set fs \<subseteq> set [''U'', ''D'', ''L'', ''R'', ''H'', ''W'', ''S''])) \<and>
   sent (sockets (state_of (handleTouchStart ''U'' connected_example)) 0)
     = [''{"type":"connect"}'', ''U''] \<and>
   sent (sockets (state_of (emergencyStop connected_example)) 0)
     = [''{"type":"connect"}'', ''H''] \<and>
   (trim (ipAddress initial) \<noteq> [] \<and>
    new_WebSocket mock_env (wsUrl mock_env (ipAddress initial))
      = Inr (MockWebSocket (wsUrl mock_env (ipAddress initial))) \<and>
    wsRef (connect mock_env initial) = Some 0 \<and>
    onopen (sockets (connect mock_env initial) 0))\<close>
proof -
  have a: "wsRef connected_example = Some 0 \<and> readyState (sockets connected_example 0) = OPEN"
    using connected_example_connected by (simp add: connected_def)
  have g: "gesture (TouchStart ''L'')"
    by simp
  have b: "trim (ipAddress initial) \<noteq> [] \<and>
           new_WebSocket mock_env (wsUrl mock_env (ipAddress initial))
             = Inr (MockWebSocket (wsUrl mock_env (ipAddress initial)))"
    by (simp add: initial_def trim_def js_whitespace_def js_def mock_env_def)
  have n: "nextSocket initial = 0"
    by (simp add: initial_def)
  have k: \<open>sent (sockets connected_example 0) = [''{"type":"connect"}'']\<close>
    by (simp add: connected_example_sent connect_frame_def)
  note t = message_forms
             [where s = connected_example and h = 0 and c = "''U''" and e = "TouchStart ''L''"
                and ev = mock_env and v = "[80]"
                and ws = "MockWebSocket (wsUrl mock_env (ipAddress initial))"]
  note u = message_forms
             [where s = initial and h = 0 and c = "''U''" and e = "TouchStart ''L''"
                and ev = mock_env and v = "[80]"
                and ws = "MockWebSocket (wsUrl mock_env (ipAddress initial))"]
  from b u n have B: "wsRef (connect mock_env initial) = Some 0 \<and>
                      onopen (sockets (connect mock_env initial) 0)"
    by simp
  from a g connected_example_connected t k have T:
    \<open>(\<exists>s'. onopen_handler 0 connected_example = Returned s' \<and>
       sent (sockets s' 0) = [''{"type":"connect"}'', ''{"type":"connect"}'']) \<and>
     (\<exists>s'. disconnect connected_example = Returned s' \<and>
       sent (sockets s' 0) = [''{"type":"connect"}'', ''{"type":"disconnect"}'']) \<and>
     (\<exists>s'. sendCommand ''U'' connected_example = Returned s' \<and>
       sent (sockets s' 0) = [''{"type":"connect"}'', ''U'']) \<and>
     (\<exists>fs. sent (sockets (step mock_env connected_example (TouchStart ''L'')) 0)
             = [''{"type":"connect"}''] @ fs \<and> length fs \<le> 1 \<and>
           set fs \<subseteq> set [''U'', ''D'', ''L'', ''R'', ''H'', ''W'', ''S'']) \<and>
     sent (sockets (state_of (handleTouchStart ''U'' connected_example)) 0)
       = [''{"type":"connect"}'', ''U''] \<and>
     sent (sockets (state_of (emergencyStop connected_example)) 0)
       = [''{"type":"connect"}'', ''H'']\<close>
    by simp
  from a g connected_example_connected b B T show ?thesis
    by (intro conjI) blast+
qed

text \<open>What the socket has sent after a whole session, frame by frame.\<close>

lemma session_transcript:
  \<open>sent (sockets (run mock_env initial
       [Connect, WsOpen 0, WsMessage 0 status_up, TouchStart ''U'', TouchEnd,
        SpeedChange [80], EmergencyStop, Disconnect]) 0)
   = [''{"type":"connect"}'', ''U'', ''H'', ''W'', ''H'', ''{"type":"disconnect"}'']\<close>
  by (simp add: eval_defs handleSpeedChange_def emergencyStop_def first_def js_greater_def)

section \<open>Becoming connected\<close>

text \<open>
  C7. The message handler sets \<open>isConnected\<close> exactly on a message of type \<open>status\<close>
  whose \<open>connected\<close> field is true (truthy, as the code tests it): an unparseable
  message, and any message of another type, leaves it as it was. No other event turns
  \<open>isConnected\<close> from false to true; it starts false, and the close handler and a
  completed \<open>disconnect\<close> set it to false. Hence, on every run from the initial state
  in which the controller ends connected, such a status message has arrived and the
  controller has stayed connected ever since: nothing has reset it after that message.
\<close>

theorem connected_only_by_status:
  "isConnected (onmessage_handler p s) = (isConnected s \<or> status_connected p) \<and>
   status_connected (Some (JObj [(''type'', JStr ''status''), (''connected'', JBool b)])) = b \<and>
   \<not> status_connected None \<and>
   (member m ''type'' \<noteq> Inr (Some (JStr ''status'')) \<longrightarrow> \<not> status_connected (Some m)) \<and>
   \<not> isConnected initial \<and>
   (\<not> isConnected s \<and> isConnected (step ev s e) \<longrightarrow>
      (\<exists>h q. e = WsMessage h q \<and> status_connected q)) \<and>
   \<not> isConnected (onclose_handler s) \<and>
   (returned (disconnect s) \<longrightarrow> \<not> isConnected (state_of (disconnect s))) \<and>
   (isConnected (run ev initial es) \<longrightarrow>
      (\<exists>pre h q post. es = pre @ WsMessage h q # post \<and> status_connected q \<and>
         (\<forall>k \<le> length post. isConnected (run ev initial (pre @ WsMessage h q # take k post)))))"
proof -
  have 1: "isConnected (onmessage_handler p s) = (isConnected s \<or> status_connected p)"
    by (rule onmessage_fields(1))
  have 2: "status_connected (Some (JObj [(''type'', JStr ''status''), (''connected'', JBool b)])) = b"
    by (simp add: status_connected_def)
  have 3: "\<not> status_connected None"
    by (simp add: status_connected_def)
  have 4: "member m ''type'' \<noteq> Inr (Some (JStr ''status'')) \<longrightarrow> \<not> status_connected (Some m)"
    by (auto simp add: status_connected_def split: sum.splits)
  have 5: "\<not> isConnected initial"
    by (simp add: initial_def)
  have 6: "\<not> isConnected s \<and> isConnected (step ev s e) \<longrightarrow>
      (\<exists>h q. e = WsMessage h q \<and> status_connected q)"
    using step_connects by blast
  have 7: "\<not> isConnected (onclose_handler s)"
    by (simp add: onclose_handler_def)
  have 8: "returned (disconnect s) \<longrightarrow> \<not> isConnected (state_of (disconnect s))"
    using disconnect_cases [of s] by auto
  have 9: "isConnected (run ev initial es) \<longrightarrow>
      (\<exists>pre h q post. es = pre @ WsMessage h q # post \<and> status_connected q \<and>
         (\<forall>k \<le> length post. isConnected (run ev initial (pre @ WsMessage h q # take k post))))"
    using connected_since by blast
  from 1 2 3 4 5 6 7 8 9 show ?thesis
    by (intro conjI)
qed

theorem connected_only_by_status_witness:
  "(member (JObj [(''type'', JStr ''acknowledgment''), (''command'', JStr ''U'')]) ''type''
      \<noteq> Inr (Some (JStr ''status'')) \<and>
    \<not> status_connected (Some (JObj [(''type'', JStr ''acknowledgment''), (''command'', JStr ''U'')]))) \<and>
   (\<not> isConnected (run mock_env initial [Connect, WsOpen 0]) \<and>
    isConnected (step mock_env (run mock_env initial [Connect, WsOpen 0]) (WsMessage 0 status_up)) \<and>
    status_connected status_up) \<and>
   (returned (disconnect connected_example) \<and>
    \<not> isConnected (state_of (disconnect connected_example))) \<and>
   (isConnected (run mock_env initial [Connect, WsOpen 0, WsMessage 0 status_up]) \<and>
    (\<exists>pre h q post. [Connect, WsOpen 0, WsMessage 0 status_up] = pre @ WsMessage h q # post \<and>
        status_connected q))"
proof -
  let ?m = "JObj [(''type'', JStr ''acknowledgment''), (''command'', JStr ''U'')]"
  let ?s = "run mock_env initial [Connect, WsOpen 0]"
  let ?es = "[Connect, WsOpen 0, WsMessage 0 status_up]"
  have a: "member ?m ''type'' \<noteq> Inr (Some (JStr ''status''))"
    by simp
  have b: "\<not> isConnected ?s \<and> isConnected (step mock_env ?s (WsMessage 0 status_up))"
    by (simp add: eval_defs)
  have c: "returned (disconnect connected_example)"
    using connected_example_connected by (simp add: connected_def disconnect_def send_def Let_def)
  have d: "isConnected (run mock_env initial ?es)"
    using connected_example_connected by (simp add: connected_def connected_example_def)
  note t1 = connected_only_by_status
              [where m = ?m and s = ?s and ev = mock_env and e = "WsMessage 0 status_up"
                 and es = ?es and p = None and b = True]
  note t2 = connected_only_by_status
              [where m = ?m and s = connected_example and ev = mock_env and e = Connect
                 and es = ?es and p = None and b = True]
  from a t1 have A: "\<not> status_connected (Some ?m)" by blast
  from b t1 have B: "status_connected status_up" by blast
  from c t2 have C: "\<not> isConnected (state_of (disconnect connected_example))" by blast
  from d t1 have D: "\<exists>pre h q post. ?es = pre @ WsMessage h q # post \<and> status_connected q"
    by blast
  from a b c d A B C D show ?thesis by blast
qed

section \<open>The speed slider\<close>

text \<open>
  C8. In a connected session whose speed is \<open>old\<close>, a change of the slider to \<open>new\<close>
  stores the new speed and writes one \<open>W\<close> when \<open>new\<close> is higher, one \<open>S\<close> when it is
  lower, and nothing when it is the same.
\<close>

theorem speed_change_commands:
  assumes "connected s h" and "speed s = [old]"
  shows "\<exists>s'. handleSpeedChange [new] s = Returned s' \<and> speed s' = [new] \<and>
           sent (sockets s' h) = sent (sockets s h) @
             (if old < new then [''W''] else if new < old then [''S''] else [])"
proof -
  from assms(1) have c: "connected (s\<lparr>speed := [new]\<rparr>) h"
    by (simp add: connected_def)
  show ?thesis
    using assms sendCommand_connected [OF c]
    by (auto simp add: handleSpeedChange_def first_def js_greater_def connected_def Let_def)
qed

theorem speed_change_commands_witness:
  "connected connected_example 0 \<and> speed connected_example = [50] \<and>
   (\<exists>s'. handleSpeedChange [80] connected_example = Returned s' \<and>
      sent (sockets s' 0) = [connect_frame, ''W'']) \<and>
   (\<exists>s'. handleSpeedChange [30] connected_example = Returned s' \<and>
      sent (sockets s' 0) = [connect_frame, ''S'']) \<and>
   (\<exists>s'. handleSpeedChange [50] connected_example = Returned s' \<and>
      sent (sockets s' 0) = [connect_frame])"
  using speed_change_commands [OF connected_example_connected connected_example_speed, of 80]
        speed_change_commands [OF connected_example_connected connected_example_speed, of 30]
        speed_change_commands [OF connected_example_connected connected_example_speed, of 50]
        connected_example_connected connected_example_speed
  by (auto simp add: connected_example_sent)

text \<open>
  C10. The speed starts at 50. The only event that changes it is a change of the
  slider, which stores the value the slider hands over. The slider hands over one
  number between 10 and 100 on its grid of step 10, so after every run of events the
  speed is one integer between 10 and 100 that is a multiple of 10.
\<close>

theorem speed_in_range:
  "speed initial = [50] \<and>
   (list_all slider_event es \<longrightarrow> slider_value (speed (run ev initial es))) \<and>
   (slider_value v \<longrightarrow> (\<exists>x. v = [x] \<and> 10 \<le> x \<and> x \<le> 100 \<and> x mod 10 = 0)) \<and>
   speed (step ev s e) = (case e of SpeedChange w \<Rightarrow> w | _ \<Rightarrow> speed s)"
proof (intro conjI)
  show "speed initial = [50]"
    by (simp add: initial_def)
  show "list_all slider_event es \<longrightarrow> slider_value (speed (run ev initial es))"
    using run_speed by blast
  show "slider_value v \<longrightarrow> (\<exists>x. v = [x] \<and> 10 \<le> x \<and> x \<le> 100 \<and> x mod 10 = 0)"
  proof
    assume a: "slider_value v"
    show "\<exists>x. v = [x] \<and> 10 \<le> x \<and> x \<le> 100 \<and> x mod 10 = 0"
    proof (cases v)
      case Nil
      with a show ?thesis by (simp add: slider_value_def)
    next
      case (Cons x xs)
      with a have xs: "xs = []"
        by (cases xs) (simp_all add: slider_value_def)
      with a Cons have x: "10 \<le> x" "x \<le> 100" "(x - 10) mod 10 = 0"
        by (simp_all add: slider_value_def)
      from x(3) have "x mod 10 = 0" by presburger
      with Cons xs x show ?thesis by simp
    qed
  qed
  show "speed (step ev s e) = (case e of SpeedChange w \<Rightarrow> w | _ \<Rightarrow> speed s)"
    by (rule step_speed)
qed

theorem speed_in_range_witness:
  "list_all slider_event
     [Connect, WsOpen 0, WsMessage 0 status_up, SpeedChange [80], TouchStart ''U'',
      SpeedChange [30]] \<and>
   slider_value (speed (run mock_env initial
     [Connect, WsOpen 0, WsMessage 0 status_up, SpeedChange [80], TouchStart ''U'',
      SpeedChange [30]])) \<and>
   slider_value [30] \<and> (\<exists>x. [30] = [x] \<and> 10 \<le> x \<and> x \<le> 100 \<and> x mod 10 = (0::int))"
proof -
  let ?es = "[Connect, WsOpen 0, WsMessage 0 status_up, SpeedChange [80], TouchStart ''U'',
              SpeedChange [30]]"
  have a: "list_all slider_event ?es"
    by (simp add: slider_value_def)
  have b: "slider_value [30]"
    by (simp add: slider_value_def)
  note t = speed_in_range
             [where es = ?es and ev = mock_env and v = "[30]" and s = initial and e = Connect]
  from t have "list_all slider_event ?es \<longrightarrow> slider_value (speed (run mock_env initial ?es))"
    by (rule conjunct1 [OF conjunct2])
  with a have A: "slider_value (speed (run mock_env initial ?es))"
    by (rule rev_mp)
  from t have "slider_value [30] \<longrightarrow>
      (\<exists>x. [30] = [x] \<and> 10 \<le> x \<and> x \<le> 100 \<and> x mod 10 = (0::int))"
    by (rule conjunct1 [OF conjunct2 [OF conjunct2]])
  with b have B: "\<exists>x. [30] = [x] \<and> 10 \<le> x \<and> x \<le> 100 \<and> x mod 10 = (0::int)"
    by (rule rev_mp)
  from a A b B show ?thesis
    by (intro conjI)
qed

section \<open>Unmounting\<close>

text \<open>
  C9. When the component unmounts, the socket that the controller holds is closed and
  the timeout kept in \<open>commandTimeoutRef\<close> is no longer pending. On every run from the
  initial state that timeout is the only one pending, so none is left after the unmount.
\<close>

theorem unmount_releases:
  "(wsRef s = Some h \<longrightarrow> readyState (sockets (cleanup s) h) = CLOSED) \<and>
   (commandTimeoutRef s = Some t \<longrightarrow> t \<notin> set (timers (cleanup s))) \<and>
   timers (cleanup (run ev initial es)) = []"
proof -
  have 1: "wsRef s = Some h \<longrightarrow> readyState (sockets (cleanup s) h) = CLOSED"
    by (simp add: cleanup_def close_socket_fields Let_def)
  have 2: "commandTimeoutRef s = Some t \<longrightarrow> t \<notin> set (timers (cleanup s))"
    by (simp add: cleanup_fields clearTimeout_def)
  have "set (timers (cleanup (run ev initial es)))
          = set (timers (run ev initial es)) - set_option (commandTimeoutRef (run ev initial es))"
    by (simp add: cleanup_fields clearTimeout_def split: option.splits)
  with run_timers [of ev es] have "set (timers (cleanup (run ev initial es))) \<subseteq> {}"
    by blast
  then have 3: "timers (cleanup (run ev initial es)) = []"
    by simp
  from 1 2 3 show ?thesis
    by (intro conjI)
qed

theorem unmount_releases_witness:
  "wsRef moving_example = Some 0 \<and> readyState (sockets moving_example 0) = OPEN \<and>
   commandTimeoutRef moving_example = Some 0 \<and> timers moving_example = [0] \<and>
   readyState (sockets (cleanup moving_example) 0) = CLOSED \<and>
   0 \<notin> set (timers (cleanup moving_example))"
  using unmount_releases [where s = moving_example and h = 0 and t = 0 and ev = mock_env
                            and es = "[]"]
        moving_example_holds
  by simp

end
